theory Spec2Isabelle
  imports Main "HOL-Library.Word"
begin

section \<open>The connector layer of be/src/connector/connector.h\<close>

text \<open>
  The header declares four classes: \<open>DataSource\<close> (one scan unit), \<open>DataSourceProvider\<close>
  (the factory of one logical scan), \<open>Connector\<close> (one backend kind) and
  \<open>ConnectorManager\<close> (the registry by name). The inline bodies of the header are embedded
  as they are written. A virtual member function \<open>C::f\<close> with a body becomes the definition
  \<open>C_f\<close>: the body that an object runs unless its class overrides \<open>f\<close>. A data member
  \<open>_x\<close> becomes the field \<open>f_x\<close>, a pointer becomes an address (\<open>None\<close> for
  \<open>nullptr\<close> where the code stores one).
\<close>

subsection \<open>Values shared by the classes\<close>

type_synonym addr = nat

text \<open>
  \<open>Status\<close> is declared outside this header; the header builds it with \<open>Status::OK()\<close>
  only. The error value carries the message.
\<close>

datatype Status = OK | NotOK string

text \<open>
  How a call ends: it returns a value, it ends the process with a fatal log message (a
  failed \<open>CHECK\<close>), or it runs into \<open>__builtin_unreachable()\<close>.
\<close>

datatype 'a outcome = Returned 'a | Fatal string | Unreachable

text \<open>
  Modelled from the spec: the \<open>CHECK\<close> macro, which comes from the logging library and is
  not part of the header. A check that fails is a fatal, loud failure: the streamed
  message is logged and the process ends; a check that holds goes on with the rest.
\<close>

definition CHECK :: "bool \<Rightarrow> string \<Rightarrow> 'a outcome \<Rightarrow> 'a outcome" where
  "CHECK cond msg rest = (if cond then rest else Fatal msg)"

text \<open>An output stream writes an integer in decimal.\<close>

definition digit_char :: "nat \<Rightarrow> char" where
  "digit_char d = char_of (48 + d)"

fun decimal :: "nat \<Rightarrow> string" where
  "decimal n = (if n < 10 then [digit_char n] else decimal (n div 10) @ [digit_char (n mod 10)])"

subsection \<open>ConnectorType and Connector\<close>

datatype ConnectorType = HIVE | ES | JDBC | MYSQL | FILE | LAKE | BINLOG | ICEBERG

text \<open>The enumerators' values, as the \<open>enum\<close> gives them.\<close>

fun ConnectorType_value :: "ConnectorType \<Rightarrow> nat" where
  "ConnectorType_value HIVE = 0"
| "ConnectorType_value ES = 1"
| "ConnectorType_value JDBC = 2"
| "ConnectorType_value MYSQL = 3"
| "ConnectorType_value FILE = 4"
| "ConnectorType_value LAKE = 5"
| "ConnectorType_value BINLOG = 6"
| "ConnectorType_value ICEBERG = 7"

text \<open>
  \<open>Connector\<close> has no data member. \<open>connector_type()\<close> is pure virtual and takes no
  argument: the field holds what the object's class returns.
\<close>

record Connector =
  connector_type :: ConnectorType

text \<open>
  \<open>Connector::create_data_source_provider\<close> and \<open>Connector::create_data_sink_provider\<close>:
  \<open>CHECK(false) << connector_type() << "..."\<close>, then \<open>__builtin_unreachable()\<close>. The
  unscoped enumeration is streamed as its integer value. A provider pointer is
  \<open>None\<close> when null.
\<close>

definition Connector_create_data_source_provider ::
  "Connector \<Rightarrow> addr \<Rightarrow> 'plan \<Rightarrow> 'provider option outcome" where
  "Connector_create_data_source_provider c scan_node plan_node =
     CHECK False
       (decimal (ConnectorType_value (connector_type c)) @ '' connector does not implement chunk source yet'')
       Unreachable"

definition Connector_create_data_sink_provider :: "Connector \<Rightarrow> 'sink option outcome" where
  "Connector_create_data_sink_provider c =
     CHECK False
       (decimal (ConnectorType_value (connector_type c)) @ '' connector does not implement chunk sink yet'')
       Unreachable"

subsection \<open>DataSource\<close>

type_synonym int32 = "32 word"
type_synonym int64 = "64 word"

text \<open>
  \<open>RuntimeBloomFilterEvalContext\<close> is declared outside the header, which touches its
  \<open>driver_sequence\<close> only.
\<close>

record RuntimeBloomFilterEvalContext =
  driver_sequence :: nat

record DataSource =
  f_read_limit :: int64
  f_has_any_predicate :: bool
  f_conjunct_ctxs :: "addr list"
  f_runtime_filters :: "addr option"
  runtime_bloom_filter_eval_context :: RuntimeBloomFilterEvalContext
  f_runtime_profile :: "addr option"
  f_tuple_desc :: "addr option"
  f_split_context :: "addr option"
  f_morsel :: "addr option"

text \<open>
  The virtual members with a body. A member that returns a \<open>Status\<close> and may change
  the object yields both; \<open>close\<close> returns \<open>void\<close>, so it yields the object only.
  \<open>get_next\<close> also yields the chunk its out-parameter points to. The members
  \<open>name\<close>, \<open>raw_rows_read\<close>, \<open>num_rows_read\<close>, \<open>num_bytes_read\<close> and
  \<open>cpu_time_spent\<close> are pure virtual: the header gives them no body.
\<close>

definition DataSource_open :: "addr \<Rightarrow> 'e DataSource_scheme \<Rightarrow> Status \<times> 'e DataSource_scheme" where
  "DataSource_open state ds = (OK, ds)"

definition DataSource_close :: "addr \<Rightarrow> 'e DataSource_scheme \<Rightarrow> 'e DataSource_scheme" where
  "DataSource_close state ds = ds"

definition DataSource_get_next ::
  "addr \<Rightarrow> 'chunk \<Rightarrow> 'e DataSource_scheme \<Rightarrow> Status \<times> 'chunk \<times> 'e DataSource_scheme" where
  "DataSource_get_next state chunk ds = (OK, chunk, ds)"

definition DataSource_has_any_predicate :: "'e DataSource_scheme \<Rightarrow> bool" where
  "DataSource_has_any_predicate ds = f_has_any_predicate ds"

definition DataSource_io_time_spent :: "'e DataSource_scheme \<Rightarrow> int64" where
  "DataSource_io_time_spent ds = 0"

definition DataSource_can_estimate_mem_usage :: "'e DataSource_scheme \<Rightarrow> bool" where
  "DataSource_can_estimate_mem_usage ds = False"

definition DataSource_estimated_mem_usage :: "'e DataSource_scheme \<Rightarrow> int64" where
  "DataSource_estimated_mem_usage ds = 0"

definition DataSource_get_custom_coredump_msg :: "'e DataSource_scheme \<Rightarrow> string" where
  "DataSource_get_custom_coredump_msg ds = []"

text \<open>The setters the framework calls. \<open>set_read_limit\<close> takes a \<open>uint64_t\<close>.\<close>

definition set_predicates :: "addr list \<Rightarrow> 'e DataSource_scheme \<Rightarrow> 'e DataSource_scheme" where
  "set_predicates predicates ds = ds\<lparr>f_conjunct_ctxs := predicates\<rparr>"

definition set_runtime_filters :: "addr option \<Rightarrow> 'e DataSource_scheme \<Rightarrow> 'e DataSource_scheme" where
  "set_runtime_filters runtime_filters ds = ds\<lparr>f_runtime_filters := runtime_filters\<rparr>"

definition set_read_limit :: "64 word \<Rightarrow> 'e DataSource_scheme \<Rightarrow> 'e DataSource_scheme" where
  "set_read_limit limit ds = ds\<lparr>f_read_limit := limit\<rparr>"

definition set_split_context :: "addr option \<Rightarrow> 'e DataSource_scheme \<Rightarrow> 'e DataSource_scheme" where
  "set_split_context split_context ds = ds\<lparr>f_split_context := split_context\<rparr>"

definition set_morsel :: "addr option \<Rightarrow> 'e DataSource_scheme \<Rightarrow> 'e DataSource_scheme" where
  "set_morsel morsel ds = ds\<lparr>f_morsel := morsel\<rparr>"

definition set_driver_sequence :: "nat \<Rightarrow> 'e DataSource_scheme \<Rightarrow> 'e DataSource_scheme" where
  "set_driver_sequence n ds =
     ds\<lparr>runtime_bloom_filter_eval_context :=
          (runtime_bloom_filter_eval_context ds)\<lparr>driver_sequence := n\<rparr>\<rparr>"

subsection \<open>DataSourceProvider\<close>

text \<open>
  The three constants are products of \<open>int\<close> literals, computed in 32 bits and then
  widened to \<open>int64_t\<close>.
\<close>

definition MIN_DATA_SOURCE_MEM_BYTES :: int64 where
  "MIN_DATA_SOURCE_MEM_BYTES = scast (16 * 1024 * 1024 :: int32)"

definition MAX_DATA_SOURCE_MEM_BYTES :: int64 where
  "MAX_DATA_SOURCE_MEM_BYTES = scast (256 * 1024 * 1024 :: int32)"

definition PER_FIELD_MEM_BYTES :: int64 where
  "PER_FIELD_MEM_BYTES = scast (4 * 1024 * 1024 :: int32)"

record DataSourceProvider =
  f_partition_exprs :: "addr list"
  f_could_split :: bool
  f_could_split_physically :: bool
  splitted_scan_rows :: int64
  scan_dop :: int64

text \<open>A provider as its default member initializers leave it.\<close>

definition DataSourceProvider_new :: DataSourceProvider where
  "DataSourceProvider_new =
     \<lparr>f_partition_exprs = [], f_could_split = False, f_could_split_physically = False,
      splitted_scan_rows = 0, scan_dop = 0\<rparr>"

text \<open>The three members of the non-pipeline interface; they are not virtual.\<close>

definition DataSourceProvider_prepare ::
  "addr \<Rightarrow> 'e DataSourceProvider_scheme \<Rightarrow> Status \<times> 'e DataSourceProvider_scheme" where
  "DataSourceProvider_prepare state p = (OK, p)"

definition DataSourceProvider_open ::
  "addr \<Rightarrow> 'e DataSourceProvider_scheme \<Rightarrow> Status \<times> 'e DataSourceProvider_scheme" where
  "DataSourceProvider_open state p = (OK, p)"

definition DataSourceProvider_close ::
  "addr \<Rightarrow> 'e DataSourceProvider_scheme \<Rightarrow> 'e DataSourceProvider_scheme" where
  "DataSourceProvider_close state p = p"

text \<open>The virtual members with a body, and the getters.\<close>

definition DataSourceProvider_insert_local_exchange_operator :: "'e DataSourceProvider_scheme \<Rightarrow> bool" where
  "DataSourceProvider_insert_local_exchange_operator p = False"

definition DataSourceProvider_accept_empty_scan_ranges :: "'e DataSourceProvider_scheme \<Rightarrow> bool" where
  "DataSourceProvider_accept_empty_scan_ranges p = True"

definition DataSourceProvider_stream_data_source :: "'e DataSourceProvider_scheme \<Rightarrow> bool" where
  "DataSourceProvider_stream_data_source p = False"

definition DataSourceProvider_init ::
  "addr \<Rightarrow> addr \<Rightarrow> 'e DataSourceProvider_scheme \<Rightarrow> Status \<times> 'e DataSourceProvider_scheme" where
  "DataSourceProvider_init pool state p = (OK, p)"

definition partition_exprs :: "'e DataSourceProvider_scheme \<Rightarrow> addr list" where
  "partition_exprs p = f_partition_exprs p"

definition DataSourceProvider_always_shared_scan :: "'e DataSourceProvider_scheme \<Rightarrow> bool" where
  "DataSourceProvider_always_shared_scan p = True"

definition DataSourceProvider_peek_scan_ranges ::
  "'r list \<Rightarrow> 'e DataSourceProvider_scheme \<Rightarrow> 'e DataSourceProvider_scheme" where
  "DataSourceProvider_peek_scan_ranges scan_ranges p = p"

text \<open>
  \<open>default_data_source_mem_bytes\<close> writes through its two \<open>int64_t*\<close> parameters, first
  \<open>*min_value\<close>, then \<open>*max_value\<close>. The memory they point into maps an address to the
  64-bit value stored there.
\<close>

definition DataSourceProvider_default_data_source_mem_bytes ::
  "addr \<Rightarrow> addr \<Rightarrow> (addr \<Rightarrow> int64) \<Rightarrow> (addr \<Rightarrow> int64)" where
  "DataSourceProvider_default_data_source_mem_bytes min_value max_value mem =
     (mem(min_value := MIN_DATA_SOURCE_MEM_BYTES))(max_value := MAX_DATA_SOURCE_MEM_BYTES)"

definition could_split :: "'e DataSourceProvider_scheme \<Rightarrow> bool" where
  "could_split p = f_could_split p"

definition could_split_physically :: "'e DataSourceProvider_scheme \<Rightarrow> bool" where
  "could_split_physically p = f_could_split_physically p"

definition get_splitted_scan_rows :: "'e DataSourceProvider_scheme \<Rightarrow> int64" where
  "get_splitted_scan_rows p = splitted_scan_rows p"

definition get_scan_dop :: "'e DataSourceProvider_scheme \<Rightarrow> int64" where
  "get_scan_dop p = scan_dop p"

subsection \<open>ConnectorManager\<close>

text \<open>
  A \<open>unique_ptr\<close> either owns a connector object (\<open>Some c\<close>) or is null (\<open>None\<close>); a
  plain pointer to a connector is read the same way. The registry is one
  \<open>unordered_map\<close> from the name to the \<open>unique_ptr\<close> that owns the connector; a manager
  starts with the empty map.
\<close>

type_synonym 'c unique_ptr = "'c option"

record 'c ConnectorManager =
  f_connectors :: "string \<rightharpoonup> 'c unique_ptr"

definition ConnectorManager_new :: "'c ConnectorManager" where
  "ConnectorManager_new = \<lparr>f_connectors = Map.empty\<rparr>"

text \<open>
  Modelled from the spec: the body of \<open>ConnectorManager::get\<close>, which the header only
  declares. The spec: \<open>get(name)\<close> returns a non-owning lookup result or "not found".
  The result is the plain pointer held by the entry of the name; \<open>None\<close> is "not found".
\<close>

definition ConnectorManager_get :: "string \<Rightarrow> 'c ConnectorManager \<Rightarrow> 'c option" where
  "ConnectorManager_get name m =
     (case f_connectors m name of None \<Rightarrow> None | Some connector \<Rightarrow> connector)"

text \<open>
  Modelled from the spec: the body of \<open>ConnectorManager::put\<close>, which the header only
  declares. The spec: \<open>put(name, connector)\<close> transfers ownership of the Connector to the
  manager; after \<open>put("X", c)\<close>, \<open>get("X")\<close> returns \<open>c\<close> for all subsequent calls; no
  removal or hot-reload path is defined. So the connector goes into the map under a
  name that has no entry, and a name that has an entry keeps it: a later \<open>put\<close> under
  that name does not replace the connector. The parameter is a \<open>unique_ptr\<close> taken by
  value, as the header declares it: the caller's pointer is moved from. The result is the
  manager after the call and the caller's pointer after the call, which is null.
\<close>

definition ConnectorManager_put ::
  "string \<Rightarrow> 'c unique_ptr \<Rightarrow> 'c ConnectorManager \<Rightarrow> 'c ConnectorManager \<times> 'c unique_ptr" where
  "ConnectorManager_put name connector m =
     (case f_connectors m name of
        None \<Rightarrow> (m\<lparr>f_connectors := (f_connectors m)(name \<mapsto> connector)\<rparr>, None)
      | Some registered \<Rightarrow> (m, None))"

text \<open>The connectors a manager owns are those that the pointers of its map own.\<close>

definition owned :: "'c ConnectorManager \<Rightarrow> 'c set" where
  "owned m = {c. Some c \<in> ran (f_connectors m)}"

text \<open>A run of registrations: the \<open>put\<close> calls of a list, in order.\<close>

fun put_all :: "(string \<times> 'c unique_ptr) list \<Rightarrow> 'c ConnectorManager \<Rightarrow> 'c ConnectorManager" where
  "put_all [] m = m"
| "put_all ((name, connector) # rest) m =
     put_all rest (fst (ConnectorManager_put name connector m))"

subsection \<open>The conversion of scan ranges into a morsel queue\<close>

text \<open>
  Modelled from the spec: the morsels of \<open>exec/pipeline/scan/morsel.h\<close>, which the header
  includes. A morsel is the unit of scan work of one plan node; it stands for one scan
  range or, for a backend with no range concept, for the whole source. A morsel queue is
  the ordered collection of the morsels of one scan.
\<close>

datatype 'r Morsel = ScanMorsel int32 'r | WholeSourceMorsel int32

type_synonym 'r MorselQueue = "'r Morsel list"

text \<open>
  Modelled from the spec: what the class of a provider supplies to the conversion, whose
  body the header does not contain. \<open>accept_empty_scan_ranges\<close> is
  the answer of the virtual member of that name (the base class answers true, a backend
  with no range concept overrides it with false). The other three are the decisions the
  spec leaves to the backend: whether it can interpret a scan range at all, how it
  subdivides one range (physically or logically, under a parallel mode, towards
  \<open>pipeline_dop\<close>), and how many rows a range stands for.
\<close>

record ('r, 'mode) Backend =
  accept_empty_scan_ranges :: bool
  interprets :: "'r \<Rightarrow> bool"
  subdivide :: "bool \<Rightarrow> 'mode \<Rightarrow> int32 \<Rightarrow> 'r \<Rightarrow> 'r list"
  rows_of :: "'r \<Rightarrow> int64"

text \<open>
  Modelled from the spec: the body of
  \<open>DataSourceProvider::convert_scan_range_to_morsel_queue\<close>, which the header only
  declares. The spec, section 4.3 and 8:
  \<^item> it fails only when a scan range cannot be interpreted by the backend; zero ranges
    are valid;
  \<^item> with \<open>accept_empty_scan_ranges()\<close> false, an empty range list still yields a queue
    that represents the whole source, not an empty queue;
  \<^item> if the backend is not splittable (\<open>could_split()\<close> false), each input scan range
    becomes exactly one morsel, and parallelism is bounded by \<open>num_total_scan_ranges\<close>;
  \<^item> if it is splittable and tablet-internal parallelism is enabled, the ranges may be
    subdivided (physically if \<open>could_split_physically()\<close>) to raise the morsel count
    towards \<open>pipeline_dop\<close>;
  \<^item> the resulting \<open>scan_dop\<close> (the effective achievable parallelism) and
    \<open>splitted_scan_rows\<close> (the rows the split ranges stand for) are recorded in the
    provider.
  The spec bounds \<open>scan_dop\<close> and does not give a formula: the model records the largest
  parallelism within the bounds (the drivers \<open>pipeline_dop\<close>, the morsels of the queue,
  and \<open>num_total_scan_ranges\<close> when nothing is split), as in the spec's scenario of 3
  ranges with \<open>pipeline_dop = 8\<close> and \<open>scan_dop = 3\<close>.
\<close>

definition convert_scan_range_to_morsel_queue ::
  "('r, 'mode) Backend \<Rightarrow> 'r list \<Rightarrow> int32 \<Rightarrow> int32 \<Rightarrow> bool \<Rightarrow> 'mode \<Rightarrow> 64 word
     \<Rightarrow> 'e DataSourceProvider_scheme \<Rightarrow> (Status + 'r MorselQueue) \<times> 'e DataSourceProvider_scheme" where
  "convert_scan_range_to_morsel_queue backend scan_ranges node_id pipeline_dop
       enable_tablet_internal_parallel tablet_internal_parallel_mode num_total_scan_ranges p =
     (if \<not> list_all (interprets backend) scan_ranges
      then (Inl (NotOK ''malformed scan range''), p)
      else
        let split = (could_split p \<and> enable_tablet_internal_parallel);
            ranges =
              (if split
               then concat (map (subdivide backend (could_split_physically p)
                                   tablet_internal_parallel_mode pipeline_dop) scan_ranges)
               else scan_ranges);
            morsels =
              (if scan_ranges = [] \<and> \<not> accept_empty_scan_ranges backend
               then [WholeSourceMorsel node_id]
               else map (ScanMorsel node_id) ranges);
            dop =
              (if split
               then min (sint pipeline_dop) (int (length morsels))
               else min (sint pipeline_dop)
                      (min (int (length morsels)) (uint num_total_scan_ranges)))
        in (Inr morsels,
            p\<lparr>splitted_scan_rows :=
                 (if split then sum_list (map (rows_of backend) scan_ranges)
                  else splitted_scan_rows p),
              scan_dop := word_of_int dop\<rparr>))"

text \<open>
  Two backends to run the conversion on. Both take a natural number as a scan range
  and interpret every range. The first is a backend like JDBC: it has no range concept
  (\<open>accept_empty_scan_ranges()\<close> overridden with false) and never subdivides. The second
  keeps the base class's answer.
\<close>

definition jdbc_like :: "(nat, unit) Backend" where
  "jdbc_like =
     \<lparr>accept_empty_scan_ranges = False, interprets = (\<lambda>r. True),
      subdivide = (\<lambda>physically mode dop r. [r]), rows_of = (\<lambda>r. 0)\<rparr>"

definition file_like :: "(nat, unit) Backend" where
  "file_like =
     \<lparr>accept_empty_scan_ranges = DataSourceProvider_accept_empty_scan_ranges DataSourceProvider_new,
      interprets = (\<lambda>r. True),
      subdivide = (\<lambda>physically mode dop r. [r]), rows_of = (\<lambda>r. 0)\<rparr>"

section \<open>Properties of the code of the header\<close>

subsection \<open>ConnectorType and Connector\<close>

lemma ConnectorType_UNIV:
  "(UNIV :: ConnectorType set) = {HIVE, ES, JDBC, MYSQL, FILE, LAKE, BINLOG, ICEBERG}"
proof -
  have "x \<in> {HIVE, ES, JDBC, MYSQL, FILE, LAKE, BINLOG, ICEBERG}" for x :: ConnectorType
    by (cases x) simp_all
  then show ?thesis by blast
qed

text \<open>
  C8. \<open>connector_type()\<close> ranges over a closed enumeration: the type has exactly the eight
  kinds HIVE, ES, JDBC, MYSQL, FILE, LAKE, BINLOG and ICEBERG, pairwise different, with the
  values 0 to 7 in this order, and what any connector returns is one of them.
\<close>

theorem connector_type_closed_enumeration:
  "(UNIV :: ConnectorType set) = {HIVE, ES, JDBC, MYSQL, FILE, LAKE, BINLOG, ICEBERG}
   \<and> distinct [HIVE, ES, JDBC, MYSQL, FILE, LAKE, BINLOG, ICEBERG]
   \<and> card (UNIV :: ConnectorType set) = 8
   \<and> map ConnectorType_value [HIVE, ES, JDBC, MYSQL, FILE, LAKE, BINLOG, ICEBERG] = [0, 1, 2, 3, 4, 5, 6, 7]
   \<and> connector_type c \<in> {HIVE, ES, JDBC, MYSQL, FILE, LAKE, BINLOG, ICEBERG}"
proof -
  have d: "distinct [HIVE, ES, JDBC, MYSQL, FILE, LAKE, BINLOG, ICEBERG]" by simp
  have "card (set [HIVE, ES, JDBC, MYSQL, FILE, LAKE, BINLOG, ICEBERG]) = 8"
    using distinct_card [OF d] by simp
  then have k: "card (UNIV :: ConnectorType set) = 8"
    by (simp add: ConnectorType_UNIV)
  have m: "connector_type c \<in> {HIVE, ES, JDBC, MYSQL, FILE, LAKE, BINLOG, ICEBERG}"
    using ConnectorType_UNIV by blast
  show ?thesis using d k m ConnectorType_UNIV by simp
qed

text \<open>
  C3. A connector that does not override a factory direction runs the body of the base
  class when asked for it. Both bodies end in the failed \<open>CHECK\<close>: the call is fatal with
  the message that names the connector type and the missing direction. It returns
  nothing, so neither a null provider nor a provider nor any other value comes back, and
  the unreachable statement behind the check is never run.
\<close>

theorem unsupported_direction_is_fatal:
  "Connector_create_data_source_provider c scan_node plan_node
     = Fatal (decimal (ConnectorType_value (connector_type c)) @ '' connector does not implement chunk source yet'')
   \<and> Connector_create_data_sink_provider c
     = Fatal (decimal (ConnectorType_value (connector_type c)) @ '' connector does not implement chunk sink yet'')
   \<and> Connector_create_data_source_provider c scan_node plan_node \<noteq> Returned None
   \<and> Connector_create_data_sink_provider c \<noteq> Returned None
   \<and> (\<forall>r. Connector_create_data_source_provider c scan_node plan_node \<noteq> Returned r)
   \<and> (\<forall>r. Connector_create_data_sink_provider c \<noteq> Returned r)
   \<and> Connector_create_data_source_provider c scan_node plan_node \<noteq> Unreachable
   \<and> Connector_create_data_sink_provider c \<noteq> Unreachable"
  by (simp add: Connector_create_data_source_provider_def Connector_create_data_sink_provider_def CHECK_def)

text \<open>The message of a JDBC connector with no read path: the type is streamed as 2.\<close>

lemma jdbc_without_read_path:
  "(Connector_create_data_source_provider \<lparr>connector_type = JDBC\<rparr> 0 () :: unit option outcome)
     = Fatal ''2 connector does not implement chunk source yet''"
  by (simp add: Connector_create_data_source_provider_def CHECK_def digit_char_def) code_simp

subsection \<open>DataSource\<close>

text \<open>
  C9. A data source that does not override memory estimation runs the bodies of the base
  class: \<open>can_estimate_mem_usage()\<close> returns false and \<open>estimated_mem_usage()\<close> returns 0.
\<close>

theorem mem_usage_estimation_unsupported_by_default:
  "\<not> DataSource_can_estimate_mem_usage ds \<and> DataSource_estimated_mem_usage ds = 0"
  by (simp add: DataSource_can_estimate_mem_usage_def DataSource_estimated_mem_usage_def)

text \<open>
  The body of \<open>DataSource::close\<close> is empty: however often it is called, the data source
  stays as it was.
\<close>

lemma DataSource_close_repeated: "(DataSource_close state ^^ n) ds = ds"
  by (induction n) (simp_all add: DataSource_close_def)

subsection \<open>DataSourceProvider\<close>

text \<open>
  C10. A freshly constructed provider that does not override the defaults answers:
  \<open>insert_local_exchange_operator()\<close> false, \<open>accept_empty_scan_ranges()\<close> true,
  \<open>stream_data_source()\<close> false, \<open>always_shared_scan()\<close> true, \<open>could_split()\<close> false,
  \<open>could_split_physically()\<close> false, \<open>get_scan_dop()\<close> 0 and
  \<open>get_splitted_scan_rows()\<close> 0.
\<close>

theorem fresh_provider_defaults:
  "\<not> DataSourceProvider_insert_local_exchange_operator DataSourceProvider_new
   \<and> DataSourceProvider_accept_empty_scan_ranges DataSourceProvider_new
   \<and> \<not> DataSourceProvider_stream_data_source DataSourceProvider_new
   \<and> DataSourceProvider_always_shared_scan DataSourceProvider_new
   \<and> \<not> could_split DataSourceProvider_new
   \<and> \<not> could_split_physically DataSourceProvider_new
   \<and> get_scan_dop DataSourceProvider_new = 0
   \<and> get_splitted_scan_rows DataSourceProvider_new = 0"
  by (simp add: DataSourceProvider_insert_local_exchange_operator_def
      DataSourceProvider_accept_empty_scan_ranges_def DataSourceProvider_stream_data_source_def
      DataSourceProvider_always_shared_scan_def could_split_def could_split_physically_def
      get_scan_dop_def get_splitted_scan_rows_def DataSourceProvider_new_def)

lemma mem_bytes_constants:
  "sint MIN_DATA_SOURCE_MEM_BYTES = 16 * 1024 * 1024
   \<and> sint MAX_DATA_SOURCE_MEM_BYTES = 256 * 1024 * 1024
   \<and> sint PER_FIELD_MEM_BYTES = 4 * 1024 * 1024"
  by (simp add: MIN_DATA_SOURCE_MEM_BYTES_def MAX_DATA_SOURCE_MEM_BYTES_def PER_FIELD_MEM_BYTES_def)

text \<open>
  C6. For a provider that does not override it, \<open>default_data_source_mem_bytes\<close> called
  with two different out-parameters leaves exactly 16MB (16 * 1024 * 1024) in
  \<open>*min_value\<close> and exactly 256MB (256 * 1024 * 1024) in \<open>*max_value\<close>, and changes no
  other cell; the per-field constant is 4MB (4 * 1024 * 1024). None of the three products
  overflows the 32 bits it is computed in.
\<close>

theorem default_data_source_mem_bytes_window:
  assumes "min_value \<noteq> max_value"
  shows "sint (DataSourceProvider_default_data_source_mem_bytes min_value max_value mem min_value)
           = 16 * 1024 * 1024
       \<and> sint (DataSourceProvider_default_data_source_mem_bytes min_value max_value mem max_value)
           = 256 * 1024 * 1024
       \<and> (\<forall>a. a \<noteq> min_value \<and> a \<noteq> max_value \<longrightarrow>
             DataSourceProvider_default_data_source_mem_bytes min_value max_value mem a = mem a)
       \<and> sint PER_FIELD_MEM_BYTES = 4 * 1024 * 1024"
  using assms mem_bytes_constants
  by (simp add: DataSourceProvider_default_data_source_mem_bytes_def)

theorem default_data_source_mem_bytes_window_witness:
  "(10 :: addr) \<noteq> 11
   \<and> sint (DataSourceProvider_default_data_source_mem_bytes 10 11 (\<lambda>a. 0) 10) = 16777216
   \<and> sint (DataSourceProvider_default_data_source_mem_bytes 10 11 (\<lambda>a. 0) 11) = 268435456
   \<and> DataSourceProvider_default_data_source_mem_bytes 10 11 (\<lambda>a. 0) 12 = 0
   \<and> sint PER_FIELD_MEM_BYTES = 4194304"
  using default_data_source_mem_bytes_window [of 10 11 "\<lambda>a. 0"] by simp

section \<open>Properties of the bodies modelled from the spec\<close>

subsection \<open>ConnectorManager\<close>

lemma put_all_unregistered:
  "name \<notin> fst ` set ps \<Longrightarrow> f_connectors (put_all ps m) name = f_connectors m name"
  by (induction ps arbitrary: m)
    (auto simp: ConnectorManager_put_def split: option.splits)

lemma put_keeps_entry:
  assumes "f_connectors m name = Some connector"
  shows "f_connectors (fst (ConnectorManager_put other given m)) name = Some connector"
proof (cases "f_connectors m other")
  case None
  then have "other \<noteq> name" using assms by auto
  then show ?thesis using assms None by (simp add: ConnectorManager_put_def)
next
  case (Some registered)
  then show ?thesis using assms by (simp add: ConnectorManager_put_def)
qed

lemma put_all_registered:
  "f_connectors m name = Some connector \<Longrightarrow> f_connectors (put_all ps m) name = Some connector"
proof (induction ps arbitrary: m)
  case Nil
  then show ?case by simp
next
  case (Cons p ps)
  obtain other given where p: "p = (other, given)" by (cases p)
  have "f_connectors (fst (ConnectorManager_put other given m)) name = Some connector"
    using Cons.prems by (rule put_keeps_entry)
  then show ?case using Cons.IH p by simp
qed

lemma owned_first_put:
  assumes "f_connectors m name = None"
  shows "owned (fst (ConnectorManager_put name (Some c) m)) = insert c (owned m)"
proof -
  have "ran ((f_connectors m)(name \<mapsto> Some c)) = insert (Some c) (ran (f_connectors m))"
    using assms by simp
  then show ?thesis
    using assms by (auto simp: owned_def ConnectorManager_put_def)
qed

text \<open>
  C2. On the manager that a run of registrations without the name \<open>X\<close> has built
  from the new one, that is before any \<open>put(X, ...)\<close>, \<open>get(X)\<close> returns not-found.
  After the \<open>put(X, c)\<close> that follows, \<open>get(X)\<close> returns the pointer to \<open>c\<close>, at once
  and after every later run of registrations, whatever their names. The \<open>put\<close>
  transfers the ownership: the caller's pointer is null after the call, the manager owns
  \<open>c\<close> in addition to what it owned before, and it still owns \<open>c\<close> after every later
  run of registrations.
\<close>

theorem get_after_put:
  assumes "X \<notin> fst ` set before"
  shows "ConnectorManager_get X (put_all before ConnectorManager_new) = None
       \<and> ConnectorManager_get X
           (fst (ConnectorManager_put X (Some c) (put_all before ConnectorManager_new))) = Some c
       \<and> ConnectorManager_get X
           (put_all after (fst (ConnectorManager_put X (Some c) (put_all before ConnectorManager_new))))
           = Some c
       \<and> snd (ConnectorManager_put X (Some c) (put_all before ConnectorManager_new)) = None
       \<and> owned (fst (ConnectorManager_put X (Some c) (put_all before ConnectorManager_new)))
           = insert c (owned (put_all before ConnectorManager_new))
       \<and> c \<in> owned
           (put_all after (fst (ConnectorManager_put X (Some c) (put_all before ConnectorManager_new))))"
proof -
  let ?m = "put_all before ConnectorManager_new"
  let ?m' = "fst (ConnectorManager_put X (Some c) ?m)"
  have fresh: "f_connectors ?m X = None"
    using assms by (simp add: put_all_unregistered ConnectorManager_new_def)
  have entry: "f_connectors ?m' X = Some (Some c)"
    using fresh by (simp add: ConnectorManager_put_def)
  have later: "f_connectors (put_all after ?m') X = Some (Some c)"
    using entry by (rule put_all_registered)
  have 1: "ConnectorManager_get X ?m = None"
    using fresh by (simp add: ConnectorManager_get_def)
  have 2: "ConnectorManager_get X ?m' = Some c"
    using entry by (simp add: ConnectorManager_get_def)
  have 3: "ConnectorManager_get X (put_all after ?m') = Some c"
    using later by (simp add: ConnectorManager_get_def)
  have 4: "snd (ConnectorManager_put X (Some c) ?m) = None"
    by (simp add: ConnectorManager_put_def split: option.splits)
  have 5: "owned ?m' = insert c (owned ?m)"
    using fresh by (rule owned_first_put)
  have 6: "c \<in> owned (put_all after ?m')"
    using later by (auto simp: owned_def ran_def)
  show ?thesis using 1 2 3 4 5 6 by simp
qed

theorem get_after_put_witness:
  "''hive'' \<notin> fst ` set [(''jdbc'', Some JDBC)]
   \<and> ConnectorManager_get ''hive'' (put_all [(''jdbc'', Some JDBC)] ConnectorManager_new) = None
   \<and> ConnectorManager_get ''hive''
        (put_all [(''hive'', Some ES), (''es'', Some ES)]
           (fst (ConnectorManager_put ''hive'' (Some HIVE)
                   (put_all [(''jdbc'', Some JDBC)] ConnectorManager_new))))
       = Some HIVE
   \<and> snd (ConnectorManager_put ''hive'' (Some HIVE)
             (put_all [(''jdbc'', Some JDBC)] ConnectorManager_new)) = None
   \<and> HIVE \<in> owned
        (put_all [(''hive'', Some ES), (''es'', Some ES)]
           (fst (ConnectorManager_put ''hive'' (Some HIVE)
                   (put_all [(''jdbc'', Some JDBC)] ConnectorManager_new))))"
  using get_after_put [of "''hive''" "[(''jdbc'', Some JDBC)]" HIVE
      "[(''hive'', Some ES), (''es'', Some ES)]"]
  by simp

subsection \<open>The conversion of scan ranges into a morsel queue\<close>

text \<open>
  C5. For a provider whose \<open>accept_empty_scan_ranges()\<close> is false, the conversion of the
  empty scan-range list succeeds with the queue of the one morsel that stands for the
  whole source, not with the empty queue: the scan is not pruned to zero work.
\<close>

theorem empty_ranges_yield_whole_source:
  assumes "\<not> accept_empty_scan_ranges backend"
  shows "fst (convert_scan_range_to_morsel_queue backend [] node_id pipeline_dop enable mode num_total p)
           = Inr [WholeSourceMorsel node_id]
       \<and> fst (convert_scan_range_to_morsel_queue backend [] node_id pipeline_dop enable mode num_total p)
           \<noteq> Inr []"
  using assms by (simp add: convert_scan_range_to_morsel_queue_def Let_def)

theorem empty_ranges_yield_whole_source_witness:
  "\<not> accept_empty_scan_ranges jdbc_like
   \<and> fst (convert_scan_range_to_morsel_queue jdbc_like [] 7 8 False () 0 DataSourceProvider_new)
       = Inr [WholeSourceMorsel 7]
   \<and> fst (convert_scan_range_to_morsel_queue jdbc_like [] 7 8 False () 0 DataSourceProvider_new)
       \<noteq> Inr []"
  using empty_ranges_yield_whole_source [of jdbc_like 7 8 False "()" 0 DataSourceProvider_new]
  by (simp add: jdbc_like_def)

text \<open>
  The scenario of the spec: a backend that is not splittable, 3 scan ranges and
  \<open>pipeline_dop = 8\<close> give a queue of 3 morsels, and the recorded \<open>scan_dop\<close> is 3. And
  zero ranges on a backend that keeps the base class's \<open>accept_empty_scan_ranges()\<close> are
  a valid scan with the empty queue.
\<close>

lemma three_ranges_scenario:
  "convert_scan_range_to_morsel_queue jdbc_like [10, 11, 12] 1 8 False () 3 DataSourceProvider_new
     = (Inr [ScanMorsel 1 10, ScanMorsel 1 11, ScanMorsel 1 12], DataSourceProvider_new\<lparr>scan_dop := 3\<rparr>)"
  by (simp add: convert_scan_range_to_morsel_queue_def Let_def jdbc_like_def could_split_def
      DataSourceProvider_new_def)

lemma zero_ranges_accepted:
  "fst (convert_scan_range_to_morsel_queue file_like [] 1 8 False () 0 DataSourceProvider_new) = Inr []"
  by (simp add: convert_scan_range_to_morsel_queue_def Let_def file_like_def could_split_def
      DataSourceProvider_new_def DataSourceProvider_accept_empty_scan_ranges_def)

end
